theory Spec2Isabelle
  imports Complex_Main
begin

section \<open>Exceptions of the decoder\<close>

text \<open>
  The Z3D reader of \<^verbatim>\<open>mtpy/usgs/zen.py\<close> is Python 2 code on top of numpy. Every
  exception that the modelled paths can raise is a value of \<open>py_error\<close>; a function that
  can raise returns \<open>py_error + 'a\<close> with \<open>Inl\<close> for the exception.
\<close>

datatype py_error =
    IndexError
  | AttributeError
  | TypeError
  | ValueError
  | StructError
  | IOError

section \<open>The raw word stream and the GPS stamp record\<close>

text \<open>
  The file body is read as \<^verbatim>\<open>np.int32\<close> words. A word is modelled by its integer
  value: the decoder only compares words with the two flags and overwrites them with
  zero, so no arithmetic on words can overflow. Positions in the buffer are naturals.
\<close>

definition gps_flag_0 :: int where
  "gps_flag_0 = 2147483647"

definition gps_flag_1 :: int where
  "gps_flag_1 = - 2147483648"

definition gps_stamp_length :: nat where
  "gps_stamp_length = 64"

definition gps_bytes :: nat where
  "gps_bytes = gps_stamp_length div 4"

text \<open>
  \<^verbatim>\<open>_gps_dtype\<close>: a packed record of 64 bytes, that is 16 words. The two doubles take
  two words each and the two 4-byte floats one word each; they are kept as the raw words
  they are reinterpreted from.
\<close>

record gps_stamp =
  flag0 :: int
  flag1 :: int
  time :: int
  lat :: "int \<times> int"
  lon :: "int \<times> int"
  num_sat :: int
  gps_sens :: int
  temperature :: int
  voltage :: int
  num_fpga :: int
  num_adc :: int
  pps_count :: int
  dac_tune :: int
  block_len :: int

text \<open>One entry of \<^verbatim>\<open>np.zeros(n, dtype=self._gps_dtype)\<close>.\<close>

definition zero_stamp :: gps_stamp where
  "zero_stamp = \<lparr>flag0 = 0, flag1 = 0, time = 0, lat = (0, 0), lon = (0, 0),
     num_sat = 0, gps_sens = 0, temperature = 0, voltage = 0, num_fpga = 0,
     num_adc = 0, pps_count = 0, dac_tune = 0, block_len = 0\<rparr>"

text \<open>
  \<^verbatim>\<open>np.fromstring(struct.pack('<16i', *ws), dtype=self._gps_dtype)\<close> on exactly 16
  words.
\<close>

definition stamp_from_words :: "int list \<Rightarrow> gps_stamp" where
  "stamp_from_words ws = \<lparr>flag0 = ws ! 0, flag1 = ws ! 1, time = ws ! 2,
     lat = (ws ! 3, ws ! 4), lon = (ws ! 5, ws ! 6),
     num_sat = ws ! 7, gps_sens = ws ! 8, temperature = ws ! 9, voltage = ws ! 10,
     num_fpga = ws ! 11, num_adc = ws ! 12, pps_count = ws ! 13, dac_tune = ws ! 14,
     block_len = ws ! 15\<rparr>"

text \<open>\<^verbatim>\<open>np.where(data == v)[0]\<close>: the positions of \<open>v\<close>, in increasing order.\<close>

definition np_where_eq :: "int list \<Rightarrow> int \<Rightarrow> nat list" where
  "np_where_eq data v = filter (\<lambda>i. data ! i = v) [0..<length data]"

text \<open>\<^verbatim>\<open>data[lo:hi] = 0\<close> for \<open>lo \<le> hi\<close>: the slice is clipped at the end of the buffer.\<close>

definition zero_slice :: "nat \<Rightarrow> nat \<Rightarrow> int list \<Rightarrow> int list" where
  "zero_slice lo hi data =
     take lo data @ replicate (min hi (length data) - lo) 0 @ drop hi data"

text \<open>\<^verbatim>\<open>data[np.nonzero(data)]\<close>\<close>

definition nonzero_words :: "int list \<Rightarrow> int list" where
  "nonzero_words data = filter (\<lambda>w. w \<noteq> 0) data"

section \<open>read\_z3d: leading trim and stamp extraction\<close>

text \<open>
  Lines 889--894 of \<^verbatim>\<open>read_z3d\<close>:
  \<^verbatim>\<open>gps_stamp_find = np.where(data==self._gps_flag_0)[0]\<close>,
  \<^verbatim>\<open>data = data[gps_stamp_find[3]:]\<close>. Indexing a numpy array of fewer than four
  entries with 3 raises IndexError, which nothing catches.
\<close>

definition leading_trim :: "int list \<Rightarrow> py_error + int list" where
  "leading_trim data =
     (let gps_stamp_find = np_where_eq data gps_flag_0
      in if 3 < length gps_stamp_find
         then Inr (drop (gps_stamp_find ! 3) data)
         else Inl IndexError)"

text \<open>
  The loop of lines 898--917 over \<^verbatim>\<open>enumerate(gps_stamp_find)\<close>. The arguments are
  the whole list of candidates (for \<^verbatim>\<open>gps_stamp_find[ii-1]\<close>), the ordinal \<open>ii\<close>, the
  candidates still to visit, and the state: the stamp array and the buffer, both
  mutated in place by the source.

  \<^item> \<^verbatim>\<open>data[gps_find+1]\<close> past the end raises IndexError, which the loop catches and
    answers with \<^verbatim>\<open>break\<close>.
  \<^item> \<^verbatim>\<open>struct.pack\<close> with a format of 16 items raises \<^verbatim>\<open>struct.error\<close> when the
    slice \<^verbatim>\<open>data[gps_find:gps_find+16]\<close> is shorter than 16 words; nothing catches it.
  \<^item> A candidate whose next word is not the second flag changes nothing.
\<close>

fun stamp_loop ::
  "nat list \<Rightarrow> nat \<Rightarrow> nat list \<Rightarrow> gps_stamp list \<times> int list \<Rightarrow>
     py_error + (gps_stamp list \<times> int list)" where
  "stamp_loop gps_stamp_find ii [] (stamps, data) = Inr (stamps, data)"
| "stamp_loop gps_stamp_find ii (gps_find # rest) (stamps, data) =
     (if length data \<le> gps_find + 1 then Inr (stamps, data)
      else if data ! (gps_find + 1) = gps_flag_1 then
        (if length data < gps_find + gps_bytes then Inl StructError
         else
           let rec = stamp_from_words (take gps_bytes (drop gps_find data));
               rec' = rec\<lparr>block_len :=
                        (if 0 < ii
                         then int gps_find - int (gps_stamp_find ! (ii - 1)) - int gps_bytes
                         else 0)\<rparr>
           in stamp_loop gps_stamp_find (ii + 1) rest
                (stamps[ii := rec'], zero_slice gps_find (gps_find + gps_bytes) data))
      else stamp_loop gps_stamp_find (ii + 1) rest (stamps, data))"

text \<open>
  Lines 894--917: scan the trimmed buffer for the first flag, allocate one all-zero
  stamp for every candidate, run the loop. The result is the stamp array and the buffer
  with the words of the extracted stamps zeroed.
\<close>

definition scan_stamps :: "int list \<Rightarrow> py_error + (gps_stamp list \<times> int list)" where
  "scan_stamps data =
     (let gps_stamp_find = np_where_eq data gps_flag_0;
          stamps = replicate (length gps_stamp_find) zero_stamp
      in stamp_loop gps_stamp_find 0 gps_stamp_find (stamps, data))"

text \<open>Lines 889--917 together.\<close>

definition extract_stamps :: "int list \<Rightarrow> py_error + (gps_stamp list \<times> int list)" where
  "extract_stamps raw =
     (case leading_trim raw of
        Inl e \<Rightarrow> Inl e
      | Inr data \<Rightarrow> scan_stamps data)"

section \<open>validate\_time\_blocks and the decode as a whole\<close>

text \<open>
  The part of a \<^verbatim>\<open>Zen3D\<close> object that the block check reads and writes.
  \<^item> \<open>gps_stamps\<close> is \<^verbatim>\<open>self.gps_stamps\<close>.
  \<^item> \<open>ts\<close> is \<^verbatim>\<open>self.ts_obj.ts\<close>, the samples after \<^verbatim>\<open>convert_counts_to_mv\<close>. The
    scaling is a floating-point product of each sample with a constant; it is a
    parameter of the model, applied to every sample.
  \<^item> \<open>time_series\<close> is \<^verbatim>\<open>self.time_series\<close>. Neither \<^verbatim>\<open>__init__\<close> nor
    \<^verbatim>\<open>read_z3d\<close> assigns this attribute, so it is \<open>None\<close> unless a caller has set it
    on the object, and reading it then raises AttributeError.
  \<^item> \<open>ad_rate\<close> is \<^verbatim>\<open>self.header.ad_rate\<close>, a float parsed from the header; numpy
    compares the integer block lengths with it exactly.
\<close>

record 'v zen3d =
  gps_stamps :: "gps_stamp list"
  ts :: "'v list"
  time_series :: "'v list option"
  ad_rate :: rat

text \<open>\<^verbatim>\<open>xs[k:]\<close> for a Python integer \<open>k\<close>; a negative \<open>k\<close> counts from the end.\<close>

definition py_slice_from :: "int \<Rightarrow> 'a list \<Rightarrow> 'a list" where
  "py_slice_from k xs =
     (if k < 0 then drop (nat (int (length xs) + k)) xs else drop (nat k) xs)"

text \<open>\<^verbatim>\<open>a.max()\<close> of a non-empty array.\<close>

definition np_max :: "nat list \<Rightarrow> nat" where
  "np_max xs = fold max (tl xs) (hd xs)"

text \<open>
  \<^verbatim>\<open>validate_time_blocks\<close>, lines 1020--1037. \<open>bad_blocks\<close> holds positions in
  \<^verbatim>\<open>block_len[1:]\<close>, so position \<open>b\<close> is the stamp of ordinal \<open>b + 1\<close>.
\<close>

definition validate_time_blocks :: "'v zen3d \<Rightarrow> py_error + 'v zen3d" where
  "validate_time_blocks z =
     (let lens = map block_len (gps_stamps z);
          bad_blocks = filter (\<lambda>i. of_int (tl lens ! i) \<noteq> ad_rate z) [0..<length (tl lens)]
      in if 0 < length bad_blocks then
           (if np_max bad_blocks < 5 then
              (let ts_skip = sum_list (take (last bad_blocks + 1) lens);
                   stamps' = drop (last bad_blocks) (gps_stamps z)
               in case time_series z of
                    None \<Rightarrow> Inl AttributeError
                  | Some series \<Rightarrow>
                      Inr (z\<lparr>gps_stamps := stamps',
                             time_series := Some (py_slice_from ts_skip series)\<rparr>))
            else Inr z)
         else Inr z)"

text \<open>
  \<^verbatim>\<open>read_z3d\<close> from line 889 on, for a file body already read into \<open>raw\<close>: trim,
  extract the stamps, keep the nonzero words as samples and scale them, then check the
  blocks. The header, schedule and metadata blocks are read before this point; here the
  header only contributes \<open>rate\<close>. Between the samples and the block check the source
  copies station, sampling rate, component and other fields of the header and metadata
  to the time-series object; these copies are not modelled, and the header and metadata
  are taken to hold the fields they need. The two steps that follow the block check,
  \<^verbatim>\<open>convert_gps_time\<close> and \<^verbatim>\<open>check_start_time\<close>, rewrite the \<open>time\<close> fields and
  the schedule strings and leave the block lengths and the samples alone.
\<close>

definition read_z3d :: "(int \<Rightarrow> 'v) \<Rightarrow> rat \<Rightarrow> int list \<Rightarrow> py_error + 'v zen3d" where
  "read_z3d counts_to_mv rate raw =
     (case extract_stamps raw of
        Inl e \<Rightarrow> Inl e
      | Inr (stamps, data) \<Rightarrow>
          validate_time_blocks
            \<lparr>gps_stamps = stamps, ts = map counts_to_mv (nonzero_words data),
             time_series = None, ad_rate = rate\<rparr>)"

section \<open>Streams built from stamp blocks\<close>

text \<open>
  A block of a recording is a stamp record followed by the samples up to the next
  stamp. It is given by the 14 words of the record after the two flags and by the
  samples. A block is well formed when the record has its 16 words, no word of the
  block other than the first is the first flag, and no sample is zero.
\<close>

type_synonym stamp_block = "int list \<times> int list"

definition block_words :: "stamp_block \<Rightarrow> int list" where
  "block_words b = gps_flag_0 # gps_flag_1 # fst b @ snd b"







section \<open>Python strings\<close>

text \<open>
  The header and schedule blocks are Python 2 byte strings; a byte is a \<open>char\<close>.
\<close>

definition newline :: char where
  "newline = CHR 0x0A"

text \<open>\<^verbatim>\<open>s.split(c)\<close> for a one-character separator: never empty, \<^verbatim>\<open>''.split(c) == ['']\<close>.\<close>

fun split_on :: "char \<Rightarrow> string \<Rightarrow> string list" where
  "split_on c [] = [[]]"
| "split_on c (x # xs) =
     (if x = c then [] # split_on c xs
      else (case split_on c xs of [] \<Rightarrow> [[x]] | w # ws \<Rightarrow> (x # w) # ws))"

text \<open>\<^verbatim>\<open>s.find(c)\<close>: the position of the first \<open>c\<close>, or \<open>-1\<close>.\<close>

definition find_char :: "char \<Rightarrow> string \<Rightarrow> int" where
  "find_char c s = (if c \<in> set s then int (length (takeWhile (\<lambda>x. x \<noteq> c) s)) else - 1)"

text \<open>\<^verbatim>\<open>s.strip()\<close>: blanks, tabs, line feeds, carriage returns, vertical tabs, form feeds.\<close>

definition is_space :: "char \<Rightarrow> bool" where
  "is_space c \<longleftrightarrow> c \<in> set [CHR '' '', CHR 0x09, CHR 0x0A, CHR 0x0B, CHR 0x0C, CHR 0x0D]"

definition strip :: "string \<Rightarrow> string" where
  "strip s = rev (dropWhile is_space (rev (dropWhile is_space s)))"

text \<open>\<^verbatim>\<open>s.lower()\<close> in the C locale: the 26 capital letters change.\<close>

definition lower_char :: "char \<Rightarrow> char" where
  "lower_char c =
     (case map_of (zip ''ABCDEFGHIJKLMNOPQRSTUVWXYZ'' ''abcdefghijklmnopqrstuvwxyz'') c of
        None \<Rightarrow> c
      | Some l \<Rightarrow> l)"

definition lower :: "string \<Rightarrow> string" where
  "lower s = map lower_char s"

text \<open>\<^verbatim>\<open>s.replace(old, new)\<close> for a one-character \<open>old\<close>.\<close>

definition replace :: "char \<Rightarrow> string \<Rightarrow> string \<Rightarrow> string" where
  "replace old new s = concat (map (\<lambda>c. if c = old then new else [c]) s)"

definition is_digit :: "char \<Rightarrow> bool" where
  "is_digit c \<longleftrightarrow> c \<in> set ''0123456789''"

text \<open>
  The strings that \<^verbatim>\<open>float(s)\<close> accepts: blanks around, a sign, then either
  \<^verbatim>\<open>inf\<close>, \<^verbatim>\<open>infinity\<close> or \<^verbatim>\<open>nan\<close> in any case, or digits with an optional point
  and an optional exponent, with a digit before or after the point.
\<close>

definition drop_sign :: "string \<Rightarrow> string" where
  "drop_sign s = (case s of [] \<Rightarrow> [] | c # r \<Rightarrow> if c = CHR ''+'' \<or> c = CHR ''-'' then r else s)"

definition all_digits :: "string \<Rightarrow> bool" where
  "all_digits s \<longleftrightarrow> s \<noteq> [] \<and> list_all is_digit s"

definition float_exponent_ok :: "string \<Rightarrow> bool" where
  "float_exponent_ok s =
     (case s of
        [] \<Rightarrow> True
      | c # r \<Rightarrow> (c = CHR ''e'' \<or> c = CHR ''E'') \<and> all_digits (drop_sign r))"

definition float_decimal_ok :: "string \<Rightarrow> bool" where
  "float_decimal_ok s =
     (let int_part = takeWhile is_digit s;
          r = dropWhile is_digit s
      in case r of
           [] \<Rightarrow> int_part \<noteq> []
         | c # r' \<Rightarrow>
             if c = CHR ''.''
             then (int_part \<noteq> [] \<or> takeWhile is_digit r' \<noteq> []) \<and>
                  float_exponent_ok (dropWhile is_digit r')
             else int_part \<noteq> [] \<and> float_exponent_ok r)"

definition float_ok :: "string \<Rightarrow> bool" where
  "float_ok s =
     (let t = drop_sign (strip s)
      in lower t \<in> set [''inf'', ''infinity'', ''nan''] \<or> float_decimal_ok t)"

section \<open>The header block\<close>

text \<open>
  A header value after \<^verbatim>\<open>convert_value\<close>: a float (kept as the text it was parsed
  from), the text itself when it is no float, or, for \<^verbatim>\<open>lat\<close> and \<^verbatim>\<open>long\<close>, the float
  converted from radians to degrees.
\<close>

datatype header_value = Float string | Str string | Degrees string

definition convert_value :: "string \<Rightarrow> string \<Rightarrow> py_error + header_value" where
  "convert_value key_string value_string =
     (let return_value = (if float_ok value_string then Float value_string else Str value_string)
      in if lower key_string = ''lat'' \<or> lower key_string = ''long''
         then (if float_ok value_string then Inr (Degrees value_string) else Inl ValueError)
         else Inr return_value)"

definition header_len :: nat where
  "header_len = 512"

text \<open>
  The attributes of the object are an association list; \<^verbatim>\<open>setattr\<close> puts the new
  binding in front, and \<open>map_of\<close> reads an attribute.

  The loop of \<^verbatim>\<open>read_header\<close>, lines 160--167.
\<close>

fun header_loop ::
  "string list \<Rightarrow> (string \<times> header_value) list \<Rightarrow> py_error + (string \<times> header_value) list" where
  "header_loop [] attrs = Inr attrs"
| "header_loop (h_str # rest) attrs =
     (if 0 < find_char CHR ''='' h_str then
        (let h_list = split_on CHR ''='' h_str;
             h_key = lower (strip (h_list ! 0));
             h_key = replace CHR ''.'' ''_'' (replace CHR ''/'' [] (replace CHR '' '' ''_'' h_key))
         in case convert_value h_key (strip (h_list ! 1)) of
              Inl e \<Rightarrow> Inl e
            | Inr h_value \<Rightarrow> header_loop rest ((h_key, h_value) # attrs))
      else header_loop rest attrs)"

text \<open>
  Lines 140--158: where the header string comes from. A file object is the bytes of
  its file; \<^verbatim>\<open>fid.seek(0)\<close> and \<^verbatim>\<open>fid.read(n)\<close> give the first \<open>n\<close> bytes, or all of
  them when the file is shorter. \<open>fs\<close> is the file system for \<^verbatim>\<open>file(self.fn, 'rb')\<close>.
  With neither a name nor a file object the string stays \<^verbatim>\<open>None\<close> and
  \<^verbatim>\<open>None.split\<close> raises AttributeError.
\<close>

definition read_header_str ::
  "(string \<rightharpoonup> string) \<Rightarrow> string option \<Rightarrow> string option \<Rightarrow> py_error + string" where
  "read_header_str fs fn fid =
     (case fid of
        Some bytes \<Rightarrow> Inr (take header_len bytes)
      | None \<Rightarrow>
          (case fn of
             None \<Rightarrow> Inl AttributeError
           | Some name \<Rightarrow>
               (case fs name of
                  None \<Rightarrow> Inl IOError
                | Some bytes \<Rightarrow> Inr (take header_len bytes))))"

definition read_header ::
  "(string \<rightharpoonup> string) \<Rightarrow> string option \<Rightarrow> string option \<Rightarrow>
     (string \<times> header_value) list \<Rightarrow> py_error + (string \<times> (string \<times> header_value) list)" where
  "read_header fs fn fid attrs =
     (case read_header_str fs fn fid of
        Inl e \<Rightarrow> Inl e
      | Inr header_str \<Rightarrow>
          (case header_loop (split_on newline header_str) attrs of
             Inl e \<Rightarrow> Inl e
           | Inr attrs' \<Rightarrow> Inr (header_str, attrs')))"

text \<open>
  The key of a header line as a function of the text before the equals sign, character
  by character.
\<close>

definition header_key :: "string \<Rightarrow> string" where
  "header_key lhs =
     map (\<lambda>c. if c = CHR '' '' \<or> c = CHR ''.'' then CHR ''_'' else c)
       (filter (\<lambda>c. c \<noteq> CHR ''/'') (lower (strip lhs)))"

text \<open>
  The key as the specification words it: lower case, blanks to underscores, slashes and
  points removed.
\<close>

definition claimed_header_key :: "string \<Rightarrow> string" where
  "claimed_header_key lhs =
     filter (\<lambda>c. c \<noteq> CHR ''/'' \<and> c \<noteq> CHR ''.'')
       (map (\<lambda>c. if c = CHR '' '' then CHR ''_'' else c) (lower lhs))"

section \<open>The schedule block\<close>

definition digit_val :: "char \<Rightarrow> nat" where
  "digit_val c = (case map_of (zip ''0123456789'' [0, 1, 2, 3, 4, 5, 6, 7, 8, 9]) c of None \<Rightarrow> 0 | Some d \<Rightarrow> d)"

definition digits_val :: "string \<Rightarrow> nat" where
  "digits_val s = foldl (\<lambda>a c. 10 * a + digit_val c) 0 s"

text \<open>\<^verbatim>\<open>int(s)\<close>: blanks around, a sign, decimal digits; anything else is a ValueError.\<close>

definition py_int :: "string \<Rightarrow> py_error + int" where
  "py_int s =
     (let t = strip s
      in if all_digits (drop_sign t)
         then Inr ((if take 1 t = ''-'' then - 1 else 1) * int (digits_val (drop_sign t)))
         else Inl ValueError)"

definition digit_char :: "nat \<Rightarrow> char" where
  "digit_char n = ''0123456789'' ! n"

fun dec :: "nat \<Rightarrow> string" where
  "dec n = (if n < 10 then [digit_char n] else dec (n div 10) @ [digit_char (n mod 10)])"

declare dec.simps [simp del]

text \<open>\<^verbatim>\<open>'{0:02}'.format(n)\<close>: at least two characters, zeros after the sign.\<close>

definition format_02 :: "int \<Rightarrow> string" where
  "format_02 n =
     (if n < 0 then CHR ''-'' # dec (nat (- n))
      else replicate (2 - length (dec (nat n))) CHR ''0'' @ dec (nat n))"

text \<open>
  The loop of \<^verbatim>\<open>read_schedule_metadata\<close>, lines 298--305. The key is the second
  segment of the text before the equals sign, split at the points; with no point in it,
  \<^verbatim>\<open>split('.')[1]\<close> raises IndexError.
\<close>

fun schedule_loop ::
  "string list \<Rightarrow> (string \<times> string) list \<Rightarrow> py_error + (string \<times> string) list" where
  "schedule_loop [] attrs = Inr attrs"
| "schedule_loop (m_str # rest) attrs =
     (if 0 < find_char CHR ''='' m_str then
        (let m_list = split_on CHR ''='' m_str;
             segments = split_on CHR ''.'' (m_list ! 0)
         in if length segments < 2 then Inl IndexError
            else
              (let m_key = replace CHR ''/'' [] (strip (segments ! 1));
                   m_value = strip (m_list ! 1)
               in schedule_loop rest ((m_key, m_value) # attrs)))
      else schedule_loop rest attrs)"

text \<open>
  Lines 307--309: \<^verbatim>\<open>self.Time = '{0}{1:02}'.format(self.Time[0:6], int(self.Time[6:])+2)\<close>.
  \<^verbatim>\<open>Time\<close> is \<^verbatim>\<open>None\<close> when the block sets no such key, and slicing it raises
  TypeError.
\<close>

definition add_two_seconds :: "(string \<times> string) list \<Rightarrow> py_error + (string \<times> string) list" where
  "add_two_seconds attrs =
     (case map_of attrs ''Time'' of
        None \<Rightarrow> Inl TypeError
      | Some t \<Rightarrow>
          (case py_int (drop 6 t) of
             Inl e \<Rightarrow> Inl e
           | Inr n \<Rightarrow> Inr ((''Time'', take 6 t @ format_02 (n + 2)) # attrs)))"

text \<open>
  Lines 277--296: the schedule string is read at offset \<^verbatim>\<open>_header_len\<close>, for
  \<^verbatim>\<open>_header_len\<close> bytes.
\<close>

definition read_meta_string ::
  "(string \<rightharpoonup> string) \<Rightarrow> string option \<Rightarrow> string option \<Rightarrow> py_error + string" where
  "read_meta_string fs fn fid =
     (case fid of
        Some bytes \<Rightarrow> Inr (take header_len (drop header_len bytes))
      | None \<Rightarrow>
          (case fn of
             None \<Rightarrow> Inl AttributeError
           | Some name \<Rightarrow>
               (case fs name of
                  None \<Rightarrow> Inl IOError
                | Some bytes \<Rightarrow> Inr (take header_len (drop header_len bytes)))))"

definition read_schedule_metadata ::
  "(string \<rightharpoonup> string) \<Rightarrow> string option \<Rightarrow> string option \<Rightarrow>
     (string \<times> string) list \<Rightarrow> py_error + (string \<times> string) list" where
  "read_schedule_metadata fs fn fid attrs =
     (case read_meta_string fs fn fid of
        Inl e \<Rightarrow> Inl e
      | Inr meta_string \<Rightarrow>
          (case schedule_loop (split_on newline meta_string) attrs of
             Inl e \<Rightarrow> Inl e
           | Inr attrs' \<Rightarrow> add_two_seconds attrs'))"

section \<open>GPS time to UTC\<close>














section \<open>Facts about np\_where\_eq\<close>

lemma np_where_eq_sorted: "sorted_wrt (<) (np_where_eq data v)"
  unfolding np_where_eq_def by (simp add: sorted_wrt_filter)

lemma np_where_eq_set:
  "set (np_where_eq data v) = {i. i < length data \<and> data ! i = v}"
  unfolding np_where_eq_def by auto

lemma filter_upt_from:
  "k \<le> n \<Longrightarrow> filter (\<lambda>p. k \<le> p) (filter Q [0..<n]) = filter Q [k..<n]"
proof -
  assume kn: "k \<le> n"
  have "[0..<n] = [0..<k] @ [k..<n]"
    using kn by (metis le0 upt_add_eq_append le_add_diff_inverse)
  then have "filter (\<lambda>p. k \<le> p) (filter Q [0..<n]) =
             filter (\<lambda>p. k \<le> p) (filter Q [0..<k]) @ filter (\<lambda>p. k \<le> p) (filter Q [k..<n])"
    by simp
  moreover have "filter (\<lambda>p. k \<le> p) (filter Q [0..<k]) = []"
    by (auto simp: filter_empty_conv)
  moreover have "filter (\<lambda>p. k \<le> p) (filter Q [k..<n]) = filter Q [k..<n]"
    by (rule filter_True) auto
  ultimately show ?thesis by simp
qed

lemma np_where_eq_drop:
  assumes "k \<le> length data"
  shows "np_where_eq (drop k data) v =
         map (\<lambda>p. p - k) (filter (\<lambda>p. k \<le> p) (np_where_eq data v))"
proof -
  let ?n = "length data"
  have shift: "[k..<?n] = map (\<lambda>i. i + k) [0..<?n - k]"
    using assms by (simp add: map_add_upt)
  have "filter (\<lambda>p. k \<le> p) (np_where_eq data v) = filter (\<lambda>i. data ! i = v) [k..<?n]"
    unfolding np_where_eq_def using assms by (rule filter_upt_from)
  also have "\<dots> = map (\<lambda>i. i + k) (filter (\<lambda>i. data ! (i + k) = v) [0..<?n - k])"
    unfolding shift by (simp add: filter_map comp_def)
  finally have "map (\<lambda>p. p - k) (filter (\<lambda>p. k \<le> p) (np_where_eq data v)) =
                filter (\<lambda>i. data ! (i + k) = v) [0..<?n - k]"
    by (simp add: comp_def)
  moreover have "np_where_eq (drop k data) v = filter (\<lambda>i. data ! (i + k) = v) [0..<?n - k]"
    unfolding np_where_eq_def using assms
    by (auto intro!: filter_cong simp: add.commute)
  ultimately show ?thesis by simp
qed

lemma filter_ge_nth_sorted:
  "sorted_wrt (<) xs \<Longrightarrow> i < length xs \<Longrightarrow>
     filter (\<lambda>p. xs ! i \<le> p) xs = drop i (xs :: nat list)"
proof (induction xs arbitrary: i)
  case Nil
  then show ?case by simp
next
  case (Cons x xs)
  show ?case
  proof (cases i)
    case 0
    have "\<forall>p \<in> set (x # xs). x \<le> p"
      using Cons.prems(1) by auto
    then have "filter (\<lambda>p. x \<le> p) (x # xs) = x # xs"
      by (simp add: filter_id_conv)
    with 0 show ?thesis by simp
  next
    case (Suc j)
    have j: "j < length xs" using Cons.prems(2) Suc by simp
    have "x < xs ! j" using Cons.prems(1) j by simp
    then have "\<not> xs ! j \<le> x" by simp
    moreover have "filter (\<lambda>p. xs ! j \<le> p) xs = drop j xs"
      using Cons.IH [of j] Cons.prems(1) j by simp
    ultimately show ?thesis using Suc by simp
  qed
qed

section \<open>Facts about the extraction loop\<close>







section \<open>The decoder on streams built from stamp blocks\<close>








lemma block_words_split:
  "block_words b = (gps_flag_0 # gps_flag_1 # fst b) @ snd b"
  by (simp add: block_words_def)
















section \<open>Facts about the header loop\<close>

lemma split_on_nonempty: "split_on c s \<noteq> []"
  by (induction s) (auto split: list.splits)

lemma split_on_first: "split_on c s ! 0 = takeWhile (\<lambda>x. x \<noteq> c) s"
proof (induction s)
  case Nil
  then show ?case by simp
next
  case (Cons x xs)
  obtain w ws where "split_on c xs = w # ws"
    using split_on_nonempty [of c xs] by (cases "split_on c xs") auto
  with Cons show ?case by auto
qed

lemma replace_chain:
  "replace CHR ''.'' ''_'' (replace CHR ''/'' [] (replace CHR '' '' ''_'' s)) =
   map (\<lambda>c. if c = CHR '' '' \<or> c = CHR ''.'' then CHR ''_'' else c)
     (filter (\<lambda>c. c \<noteq> CHR ''/'') s)"
  by (induction s) (simp_all add: replace_def)

lemma header_loop_keys:
  "header_loop ls attrs = Inr attrs' \<Longrightarrow>
     map fst attrs' =
       rev (map (\<lambda>l. header_key (takeWhile (\<lambda>x. x \<noteq> CHR ''='') l))
              (filter (\<lambda>l. 0 < find_char CHR ''='' l) ls))
       @ map fst attrs"
proof (induction ls arbitrary: attrs)
  case Nil
  then show ?case by simp
next
  case (Cons h_str rest)
  show ?case
  proof (cases "0 < find_char CHR ''='' h_str")
    case False
    then show ?thesis using Cons by simp
  next
    case True
    let ?key = "header_key (takeWhile (\<lambda>x. x \<noteq> CHR ''='') h_str)"
    have key: "replace CHR ''.'' ''_'' (replace CHR ''/'' [] (replace CHR '' '' ''_''
                 (lower (strip (split_on CHR ''='' h_str ! 0))))) = ?key"
      by (simp add: replace_chain split_on_first header_key_def)
    from Cons.prems True obtain h_value where
      run: "header_loop rest ((?key, h_value) # attrs) = Inr attrs'"
      by (auto simp: Let_def key split: sum.splits)
    from Cons.IH [OF run] True show ?thesis by simp
  qed
qed



section \<open>Facts about the calendar\<close>


section \<open>Claims on the leading trim\<close>

text \<open>
  C10. A raw word stream with fewer than four occurrences of the first flag makes the
  decode fail at the leading trim: \<^verbatim>\<open>gps_stamp_find[3]\<close> raises IndexError, nothing
  catches it, and \<^verbatim>\<open>read_z3d\<close> ends with this exception: neither stamps nor samples
  nor a diagnostic are produced.
\<close>

theorem C10_fewer_than_four_flags_IndexError:
  "length (np_where_eq raw gps_flag_0) < 4 \<Longrightarrow>
     leading_trim raw = Inl IndexError \<and> extract_stamps raw = Inl IndexError \<and>
     read_z3d counts_to_mv rate raw = Inl IndexError"
  by (simp add: leading_trim_def extract_stamps_def read_z3d_def Let_def)

theorem C10_fewer_than_four_flags_witness:
  "length (np_where_eq [5, 2147483647, 7, 2147483647, - 2147483648, 2147483647] gps_flag_0) < 4
   \<and> leading_trim [5, 2147483647, 7, 2147483647, - 2147483648, 2147483647] = Inl IndexError
   \<and> extract_stamps [5, 2147483647, 7, 2147483647, - 2147483648, 2147483647] = Inl IndexError
   \<and> read_z3d rat_of_int 256 [5, 2147483647, 7, 2147483647, - 2147483648, 2147483647] =
       Inl IndexError"
proof -
  have h: "length (np_where_eq [5, 2147483647, 7, 2147483647, - 2147483648, 2147483647]
             gps_flag_0) < 4"
    by (simp add: np_where_eq_def gps_flag_0_def upt_rec)
  show ?thesis
    using h C10_fewer_than_four_flags_IndexError [OF h, of rat_of_int 256] by simp
qed

text \<open>
  C4. When the raw stream holds at least four occurrences of the first flag, the trim
  succeeds and keeps the stream from the fourth occurrence on. Scanning the kept stream
  again finds exactly the old candidates without the first three, each moved down by the
  trim offset, and the stamp array is allocated with one entry for each of them before
  the extraction loop starts. No hypothesis looks at the words that follow a flag: the
  three discarded candidates are discarded whatever their contents.
\<close>

theorem C4_leading_trim_discards_three:
  assumes "4 \<le> length (np_where_eq raw gps_flag_0)"
  shows "leading_trim raw = Inr (drop (np_where_eq raw gps_flag_0 ! 3) raw)
       \<and> np_where_eq (drop (np_where_eq raw gps_flag_0 ! 3) raw) gps_flag_0 =
           map (\<lambda>p. p - np_where_eq raw gps_flag_0 ! 3) (drop 3 (np_where_eq raw gps_flag_0))
       \<and> extract_stamps raw =
           stamp_loop
             (map (\<lambda>p. p - np_where_eq raw gps_flag_0 ! 3) (drop 3 (np_where_eq raw gps_flag_0)))
             0
             (map (\<lambda>p. p - np_where_eq raw gps_flag_0 ! 3) (drop 3 (np_where_eq raw gps_flag_0)))
             (replicate (length (np_where_eq raw gps_flag_0) - 3) zero_stamp,
              drop (np_where_eq raw gps_flag_0 ! 3) raw)"
proof -
  let ?finds = "np_where_eq raw gps_flag_0"
  let ?k = "?finds ! 3"
  have len: "3 < length ?finds" using assms by simp
  have trim: "leading_trim raw = Inr (drop ?k raw)"
    using len by (simp add: leading_trim_def Let_def)
  have "?k \<in> set ?finds" using len by simp
  then have k: "?k \<le> length raw" by (simp add: np_where_eq_set)
  have "filter (\<lambda>p. ?k \<le> p) ?finds = drop 3 ?finds"
    using np_where_eq_sorted len by (rule filter_ge_nth_sorted)
  then have rescan: "np_where_eq (drop ?k raw) gps_flag_0 = map (\<lambda>p. p - ?k) (drop 3 ?finds)"
    using np_where_eq_drop [OF k, of gps_flag_0] by simp
  have "extract_stamps raw =
        stamp_loop (map (\<lambda>p. p - ?k) (drop 3 ?finds)) 0 (map (\<lambda>p. p - ?k) (drop 3 ?finds))
          (replicate (length ?finds - 3) zero_stamp, drop ?k raw)"
    by (simp add: extract_stamps_def scan_stamps_def trim rescan Let_def)
  with trim rescan show ?thesis by simp
qed

theorem C4_leading_trim_witness:
  "4 \<le> length (np_where_eq [2147483647, 1, 2147483647, 2147483647, 2, 2147483647, 3,
                            2147483647, 4] gps_flag_0)
   \<and> leading_trim [2147483647, 1, 2147483647, 2147483647, 2, 2147483647, 3, 2147483647, 4] =
       Inr [2147483647, 3, 2147483647, 4]
   \<and> np_where_eq [2147483647, 3, 2147483647, 4] gps_flag_0 = [0, 2]"
proof -
  let ?raw = "[2147483647, 1, 2147483647, 2147483647, 2, 2147483647, 3, 2147483647, 4] :: int list"
  have finds: "np_where_eq ?raw gps_flag_0 = [0, 2, 3, 5, 7]"
    by (simp add: np_where_eq_def gps_flag_0_def upt_rec)
  have h: "4 \<le> length (np_where_eq ?raw gps_flag_0)"
    by (simp add: finds)
  show ?thesis
    using h C4_leading_trim_discards_three [OF h] by (simp add: finds)
qed

section \<open>Claims on the stamp scanner\<close>



section \<open>Claims on the reconciler\<close>





section \<open>Claims on the time base\<close>



section \<open>Claims on the header block\<close>

text \<open>
  C8, as the code has it. When the read returns, the keys it has set are, newest first,
  the keys of the lines in which an equals sign stands after the first character. The
  key of such a line is the text before the first equals sign, without the blanks
  around it, in lower case, with every blank and every point replaced by an underscore
  and every slash removed. A line without an equals sign, or with one as its first
  character, sets no key.
\<close>

theorem C8_header_keys:
  assumes "read_header fs fn fid attrs = Inr (header_str, attrs')"
  shows "map fst attrs' =
       rev (map (\<lambda>l. header_key (takeWhile (\<lambda>x. x \<noteq> CHR ''='') l))
              (filter (\<lambda>l. 0 < find_char CHR ''='' l) (split_on newline header_str)))
       @ map fst attrs"
proof -
  from assms have "header_loop (split_on newline header_str) attrs = Inr attrs'"
    by (auto simp: read_header_def split: sum.splits)
  then show ?thesis by (rule header_loop_keys)
qed

theorem C8_header_keys_witness:
  "read_header Map.empty None
     (Some (''A/D Rate = 256'' @ [newline] @ ''Main.Hex=0x7'' @ [newline] @ ''none'' @ [newline] @
            ''=bad'')) [] =
   Inr (''A/D Rate = 256'' @ [newline] @ ''Main.Hex=0x7'' @ [newline] @ ''none'' @ [newline] @
            ''=bad'',
        [(''main_hex'', Str ''0x7''), (''ad_rate'', Float ''256'')])
   \<and> map fst [(''main_hex'', Str ''0x7''), (''ad_rate'', Float ''256'')] =
       rev (map (\<lambda>l. header_key (takeWhile (\<lambda>x. x \<noteq> CHR ''='') l))
              (filter (\<lambda>l. 0 < find_char CHR ''='' l)
                 (split_on newline
                    (''A/D Rate = 256'' @ [newline] @ ''Main.Hex=0x7'' @ [newline] @ ''none'' @ [newline] @
            ''=bad''))))"
proof -
  have h: "read_header Map.empty None
     (Some (''A/D Rate = 256'' @ [newline] @ ''Main.Hex=0x7'' @ [newline] @ ''none'' @ [newline] @
            ''=bad'')) [] =
   Inr (''A/D Rate = 256'' @ [newline] @ ''Main.Hex=0x7'' @ [newline] @ ''none'' @ [newline] @
            ''=bad'',
        [(''main_hex'', Str ''0x7''), (''ad_rate'', Float ''256'')])"
    by (simp add: read_header_def read_header_str_def header_len_def newline_def find_char_def
        convert_value_def float_ok_def float_decimal_ok_def float_exponent_ok_def all_digits_def
        drop_sign_def strip_def is_space_def is_digit_def lower_def lower_char_def replace_def
        Let_def)
  from C8_header_keys [OF h] have k: "map fst [(''main_hex'', Str ''0x7''), (''ad_rate'', Float ''256'')] =
       rev (map (\<lambda>l. header_key (takeWhile (\<lambda>x. x \<noteq> CHR ''='') l))
              (filter (\<lambda>l. 0 < find_char CHR ''='' l)
                 (split_on newline
                    (''A/D Rate = 256'' @ [newline] @ ''Main.Hex=0x7'' @ [newline] @ ''none'' @ [newline] @
            ''=bad''))))"
    by (simp only: append_Nil2 list.map)
  from h k show ?thesis by (rule conjI)
qed

text \<open>
  C8 as stated fails on a key with a point: the line \<^verbatim>\<open>A.B=1\<close> sets the key
  \<^verbatim>\<open>a_b\<close>, while removing the point gives \<^verbatim>\<open>ab\<close>.
\<close>

theorem C8_point_counterexample:
  "read_header Map.empty None (Some ''A.B=1'') [] = Inr (''A.B=1'', [(''a_b'', Float ''1'')])
   \<and> claimed_header_key ''A.B'' = ''ab''"
  by (simp add: read_header_def read_header_str_def header_len_def newline_def find_char_def
      convert_value_def float_ok_def float_decimal_ok_def float_exponent_ok_def all_digits_def
      drop_sign_def strip_def is_space_def is_digit_def lower_def lower_char_def replace_def
      Let_def claimed_header_key_def)




section \<open>Claims on the schedule block\<close>

text \<open>
  C7. A schedule block whose \<^verbatim>\<open>Time\<close> is \<^verbatim>\<open>08:00:59\<close> is parsed to the \<^verbatim>\<open>Time\<close>
  \<^verbatim>\<open>08:00:61\<close>: two is added to the seconds field as a number, and nothing is carried
  into the minutes. The time of day two seconds after 08:00:59 is 08:01:01. For a block
  whose seconds are below 58, such as \<^verbatim>\<open>08:00:16\<close>, the result \<^verbatim>\<open>08:00:18\<close> is the
  time two seconds later.
\<close>

theorem C7_schedule_time_failing_input:
  "read_schedule_metadata Map.empty None
     (Some (replicate 512 CHR ''#'' @ ''SCHEDULE.Date = 2015-05-22'' @ [newline] @
            ''SCHEDULE.Time = 08:00:59'' @ [newline])) [] =
   Inr [(''Time'', ''08:00:61''), (''Time'', ''08:00:59''), (''Date'', ''2015-05-22'')]
   \<and> read_schedule_metadata Map.empty None
     (Some (replicate 512 CHR ''#'' @ ''SCHEDULE.Date = 2015-05-22'' @ [newline] @
            ''SCHEDULE.Time = 08:00:16'' @ [newline])) [] =
   Inr [(''Time'', ''08:00:18''), (''Time'', ''08:00:16''), (''Date'', ''2015-05-22'')]"
proof -
  have d: "dec 61 = ''61''" "dec 18 = ''18''"
    by code_simp+
  show ?thesis
    by (simp add: read_schedule_metadata_def read_meta_string_def header_len_def newline_def
        find_char_def strip_def is_space_def replace_def Let_def add_two_seconds_def
        py_int_def all_digits_def drop_sign_def is_digit_def digits_val_def digit_val_def
        format_02_def d)
qed

end
